theory Spec2Isabelle
  imports Main "HOL-Library.Sublist"
begin

section \<open>Python strings and built-ins used by the two scripts\<close>

text \<open>
  Python 2 \<open>str\<close> values are byte strings; they are modelled as \<open>string\<close>, one
  \<open>char\<close> per byte. Values that may be \<open>None\<close> are \<open>string option\<close>.
\<close>

definition NL :: char where
  "NL = CHR 0x0A"

text \<open>\<open>s[i:j]\<close> for non-negative \<open>i \<le> j\<close>; a slice never raises, it is cut at the end of \<open>s\<close>.\<close>

definition slice :: "string \<Rightarrow> nat \<Rightarrow> nat \<Rightarrow> string" where
  "slice s i j = take (j - i) (drop i s)"

definition startswith :: "string \<Rightarrow> string \<Rightarrow> bool" where
  "startswith s p = (take (length p) s = p)"

text \<open>\<open>str(v)\<close>, as \<open>%s\<close> applies it to a field that holds a string or \<open>None\<close>.\<close>

definition py_str :: "string option \<Rightarrow> string" where
  "py_str v = (case v of None \<Rightarrow> ''None'' | Some s \<Rightarrow> s)"

text \<open>\<open>s.split(sep)\<close> for a one-character separator: every separator splits.\<close>

fun split :: "char \<Rightarrow> string \<Rightarrow> string list" where
  "split sep [] = [[]]"
| "split sep (c # cs) =
     (if c = sep then [] # split sep cs
      else (case split sep cs of
              [] \<Rightarrow> [[c]]
            | p # ps \<Rightarrow> (c # p) # ps))"

text \<open>\<open>s.split(sep, maxsplit)\<close>: at most \<open>maxsplit\<close> splits, the rest stays in the last piece.\<close>

fun split_max :: "char \<Rightarrow> nat \<Rightarrow> string \<Rightarrow> string list" where
  "split_max sep 0 s = [s]"
| "split_max sep (Suc n) s =
     (if sep \<in> set s
      then takeWhile (\<lambda>c. c \<noteq> sep) s # split_max sep n (tl (dropWhile (\<lambda>c. c \<noteq> sep) s))
      else [s])"

text \<open>\<open>str.rfind\<close> for a one-character needle: the highest index holding it, or \<open>-1\<close>.\<close>

fun rfind_from :: "char \<Rightarrow> string \<Rightarrow> nat \<Rightarrow> int \<Rightarrow> int" where
  "rfind_from c [] i acc = acc"
| "rfind_from c (x # xs) i acc = rfind_from c xs (Suc i) (if x = c then int i else acc)"

definition rfind :: "char \<Rightarrow> string \<Rightarrow> int" where
  "rfind c s = rfind_from c s 0 (- 1)"

text \<open>Decimal digits of a natural number, and \<open>'%0wi' % n\<close> (zero padding to width \<open>w\<close>,
  the sign counted in the width); \<open>'%i' % n\<close> is the case \<open>w = 0\<close>.\<close>

definition digit_char :: "nat \<Rightarrow> char" where
  "digit_char d = ''0123456789'' ! d"

fun digits_of :: "nat \<Rightarrow> string" where
  "digits_of n =
     (if n < 10 then [digit_char n]
      else digits_of (n div 10) @ [digit_char (n mod 10)])"

definition zfill :: "nat \<Rightarrow> string \<Rightarrow> string" where
  "zfill w s = replicate (w - length s) (CHR ''0'') @ s"

definition fmt_i :: "nat \<Rightarrow> int \<Rightarrow> string" where
  "fmt_i w n =
     (if n < 0 then CHR ''-'' # zfill (w - 1) (digits_of (nat (- n)))
      else zfill w (digits_of (nat n)))"

section \<open>reporting.py\<close>

subsection \<open>Exceptions\<close>

text \<open>
  \<open>ReportError\<close> has five attributes, each \<open>None\<close> until \<open>FromXml\<close> sets it.
  (The attribute \<open>type\<close> of the source is \<open>err_type\<close> here, since \<open>ReportRequest\<close> has
  a \<open>type\<close> too.)
\<close>

record ReportError =
  status :: "string option"
  reason :: "string option"
  extended_message :: "string option"
  result :: "string option"
  err_type :: "string option"

text \<open>
  The exceptions the two scripts can raise. \<open>ConnectionError\<close> and \<open>LoginError\<close> carry
  the message string handed to \<open>Error.__init__\<close>; the exceptions raised by the Python
  runtime (tuple unpacking and \<open>int()\<close>: \<open>ValueError\<close>, list indexing: \<open>IndexError\<close>,
  \<open>open\<close>: \<open>IOError\<close>, \<open>str + object\<close>: \<open>TypeError\<close>) carry nothing the program reads.
\<close>

datatype error =
    ConnectionError string
  | LoginError string
  | ReportErrorExc ReportError
  | ValueError
  | IndexError
  | IOError
  | TypeError

definition ReportError_init :: ReportError where
  "ReportError_init =
     \<lparr>status = None, reason = None, extended_message = None, result = None, err_type = None\<rparr>"

text \<open>
  The five patterns have the shape \<open>tag>(.*?)<\<close> with \<open>re.DOTALL\<close>. An attempt at one
  position succeeds when the literal \<open>tag>\<close> stands there and a \<open><\<close> follows somewhere
  behind it; the lazy group is then the text up to the first such \<open><\<close> (any character,
  newlines too). \<open>search\<close> tries the positions from left to right and returns the first
  success; \<open>re_search lit s\<close> is \<open>group(1)\<close> of that match, or \<open>None\<close>.
\<close>

definition match_at :: "string \<Rightarrow> string \<Rightarrow> string option" where
  "match_at lit s =
     (if startswith s lit \<and> CHR ''<'' \<in> set (drop (length lit) s)
      then Some (takeWhile (\<lambda>c. c \<noteq> CHR ''<'') (drop (length lit) s))
      else None)"

fun re_search :: "string \<Rightarrow> string \<Rightarrow> string option" where
  "re_search lit [] = match_at lit []"
| "re_search lit (c # cs) =
     (case match_at lit (c # cs) of
        Some g \<Rightarrow> Some g
      | None \<Rightarrow> re_search lit cs)"

definition FromXml :: "ReportError \<Rightarrow> string \<Rightarrow> ReportError" where
  "FromXml self xml =
     (let self = (case re_search ''status>'' xml of
                    Some g \<Rightarrow> self\<lparr>status := Some g\<rparr> | None \<Rightarrow> self);
          self = (case re_search ''reason>'' xml of
                    Some g \<Rightarrow> self\<lparr>reason := Some g\<rparr> | None \<Rightarrow> self);
          self = (case re_search ''extendedMessage>'' xml of
                    Some g \<Rightarrow> self\<lparr>extended_message := Some g\<rparr> | None \<Rightarrow> self);
          self = (case re_search ''result>'' xml of
                    Some g \<Rightarrow> self\<lparr>result := Some g\<rparr> | None \<Rightarrow> self);
          self = (case re_search ''type>'' xml of
                    Some g \<Rightarrow> self\<lparr>err_type := Some g\<rparr> | None \<Rightarrow> self)
      in self)"

text \<open>\<open>ConnectionError.__init__(url, message)\<close> builds the exception's message.\<close>

definition ConnectionError_init :: "string \<Rightarrow> string \<Rightarrow> error" where
  "ConnectionError_init url message =
     ConnectionError (''URL connection error:'' @ [NL] @ message @
                      [NL] @ ''while attempting to connect to: '' @ url)"

subsection \<open>ReportRequest\<close>

record ReportRequest =
  type :: "string option"
  token :: "string option"
  domain :: "string option"
  date :: "string option"
  report_type :: "string option"
  report_name :: "string option"

definition ReportRequest_init :: ReportRequest where
  "ReportRequest_init =
     \<lparr>type = Some ''Report'', token = None, domain = None, date = None,
      report_type = Some ''daily'', report_name = None\<rparr>"

definition ToXml :: "ReportRequest \<Rightarrow> string" where
  \<open>ToXml self =
     ''<?xml version="1.0" encoding="UTF-8"?>'' @ [NL] @
     ''<rest xmlns="google:accounts:rest:protocol"'' @ [NL] @
     ''    xmlns:xsi="http://www.w3.org/2001/XMLSchema-instance">'' @ [NL] @
     ''  <type>'' @ py_str (type self) @ ''</type>'' @ [NL] @
     ''  <token>'' @ py_str (token self) @ ''</token>'' @ [NL] @
     ''  <domain>'' @ py_str (domain self) @ ''</domain>'' @ [NL] @
     ''  <date>'' @ py_str (date self) @ ''</date>'' @ [NL] @
     ''  <reportType>'' @ py_str (report_type self) @ ''</reportType>'' @ [NL] @
     ''  <reportName>'' @ py_str (report_name self) @ ''</reportName>'' @ [NL] @
     ''</rest>'' @ [NL]\<close>

subsection \<open>ReportRunner\<close>

text \<open>
  The runner's four attributes (\<open>domain\<close> and \<open>token\<close> of the source are \<open>runner_domain\<close>
  and \<open>runner_token\<close> here, the plain names being fields of \<open>ReportRequest\<close>).
\<close>

record ReportRunner =
  admin_email :: "string option"
  admin_password :: "string option"
  runner_domain :: "string option"
  runner_token :: "string option"

definition ReportRunner_init :: ReportRunner where
  "ReportRunner_init =
     \<lparr>admin_email = None, admin_password = None, runner_domain = None, runner_token = None\<rparr>"

definition AUTH_URL :: string where
  "AUTH_URL = ''https://www.google.com/accounts/ClientLogin''"

definition REPORTING_URL :: string where
  "REPORTING_URL = ''https://www.google.com'' @ ''/hosted/services/v1.0/reports/ReportingData''"

definition GetAdminEmailDomain :: "ReportRunner \<Rightarrow> string option" where
  "GetAdminEmailDomain self =
     (case admin_email self of
        None \<Rightarrow> None
      | Some email \<Rightarrow>
          (let at_index = rfind (CHR ''@'') email
           in if at_index \<ge> 0 then Some (drop (nat (at_index + 1)) email) else None))"

text \<open>
  \<open>time.gmtime\<close> on a whole number of seconds since 1970-01-01 00:00 UTC: the civil
  (proleptic Gregorian) date of the day number and the hour of the day. Only the entries
  the runner reads (\<open>[0]\<close> year, \<open>[1]\<close> month, \<open>[2]\<close> day, \<open>[3]\<close> hour) are kept.
  Days are counted in 400-year eras of 146097 days that start on a 1 March.
\<close>

record struct_time =
  tm_year :: int
  tm_mon :: int
  tm_mday :: int
  tm_hour :: int

definition civil_from_days :: "int \<Rightarrow> int \<times> int \<times> int" where
  "civil_from_days z =
     (let z = z + 719468;
          era = z div 146097;
          doe = z - era * 146097;
          yoe = (doe - doe div 1460 + doe div 36524 - doe div 146096) div 365;
          doy = doe - (365 * yoe + yoe div 4 - yoe div 100);
          mp = (5 * doy + 2) div 153;
          d = doy - (153 * mp + 2) div 5 + 1;
          m = (if mp < 10 then mp + 3 else mp - 9);
          y = yoe + era * 400 + (if m \<le> 2 then 1 else 0)
      in (y, m, d))"

definition gmtime :: "int \<Rightarrow> struct_time" where
  "gmtime t =
     (case civil_from_days (t div 86400) of
        (y, m, d) \<Rightarrow> \<lparr>tm_year = y, tm_mon = m, tm_mday = d, tm_hour = (t mod 86400) div 3600\<rparr>)"

text \<open>
  \<open>GetLatestReportDate\<close> reads the clock once (\<open>time.time()\<close>); the reading is the
  parameter \<open>now\<close>, in whole seconds.
\<close>

definition GetLatestReportDate :: "int \<Rightarrow> string" where
  "GetLatestReportDate now =
     (let HOURS = 60 * 60;
          DAYS = 24 * HOURS;
          pst_time = gmtime (now - 8 * HOURS);
          latest = (if tm_hour pst_time < 12
                    then gmtime (now - 8 * HOURS - 2 * DAYS)
                    else gmtime (now - 8 * HOURS - 1 * DAYS))
      in fmt_i 4 (tm_year latest) @ ''-'' @ fmt_i 2 (tm_mon latest) @ ''-'' @
         fmt_i 2 (tm_mday latest))"

text \<open>
  The network. \<open>urllib2.urlopen(url, data).read()\<close> answers with the body, or raises
  \<open>HTTPError\<close> (its \<open>code\<close> an integer) for a status outside 2xx, or raises \<open>URLError\<close>,
  whose \<open>reason\<close> is a string or some other object (a \<open>socket.error\<close>).
  \<open>urllib.urlencode\<close> turns the credentials into the request body; both functions are
  parameters of the model.
\<close>

datatype reason_value = ReasonStr string | ReasonObj

datatype http_outcome = Response string | HTTPError int | URLError reason_value

record world =
  urlopen :: "string \<Rightarrow> string \<Rightarrow> http_outcome"
  urlencode :: "(string \<times> string option) list \<Rightarrow> string"

text \<open>
  \<open>__PostUrl\<close>. Both handlers pass \<open>ReportRunner._AUTH_URL\<close> to \<open>ConnectionError\<close>,
  whatever \<open>url\<close> is. In the second handler \<open>'...' + message\<close> needs \<open>message\<close> to be
  a string and raises \<open>TypeError\<close> otherwise.
\<close>

definition PostUrl :: "world \<Rightarrow> string \<Rightarrow> string \<Rightarrow> error + string" where
  "PostUrl w url data =
     (case urlopen w url data of
        Response body \<Rightarrow> Inr body
      | HTTPError code \<Rightarrow>
          Inl (ConnectionError_init AUTH_URL (''HTTP Response Code: '' @ fmt_i 0 code))
      | URLError r \<Rightarrow>
          (case r of
             ReasonStr message \<Rightarrow> Inl (ConnectionError_init AUTH_URL message)
           | ReasonObj \<Rightarrow> Inl TypeError))"

text \<open>
  The loop of \<open>Login\<close> over the lines of the response: \<open>(name, value) = line.split('=', 2)\<close>
  raises \<open>ValueError\<close> unless the split gives exactly two pieces. The result is the value
  of the first \<open>SID\<close> line, or \<open>None\<close> when the loop runs to its end.
\<close>

fun Login_lines :: "string list \<Rightarrow> error + string option" where
  "Login_lines [] = Inr None"
| "Login_lines (line # rest) =
     (case split_max (CHR ''='') 2 line of
        [name, value] \<Rightarrow> (if name = ''SID'' then Inr (Some value) else Login_lines rest)
      | _ \<Rightarrow> Inl ValueError)"

definition Login :: "world \<Rightarrow> ReportRunner \<Rightarrow> (error + unit) \<times> ReportRunner" where
  "Login w self =
     (let auth_request = urlencode w [(''accountType'', Some ''HOSTED''),
                                      (''Email'', admin_email self),
                                      (''Passwd'', admin_password self)]
      in case PostUrl w AUTH_URL auth_request of
           Inl e \<Rightarrow> (Inl e, self)
         | Inr auth_response \<Rightarrow>
             (case Login_lines (split NL auth_response) of
                Inl e \<Rightarrow> (Inl e, self)
              | Inr (Some v) \<Rightarrow> (Inr (), self\<lparr>runner_token := Some v\<rparr>)
              | Inr None \<Rightarrow>
                  (Inl (LoginError (''Unable to get SID token from '' @ AUTH_URL)), self)))"

definition GetReportData :: "world \<Rightarrow> ReportRunner \<Rightarrow> ReportRequest \<Rightarrow> error + string" where
  "GetReportData w self report_request =
     (case PostUrl w REPORTING_URL (ToXml report_request) of
        Inl e \<Rightarrow> Inl e
      | Inr report_response \<Rightarrow>
          (if startswith report_response ''<?xml''
           then Inl (ReportErrorExc (FromXml ReportError_init report_response))
           else Inr report_response))"

section \<open>data.py\<close>

text \<open>
  \<open>int(s)\<close> on a byte string: surrounding whitespace is dropped, one sign is allowed, and
  what is left must be one or more decimal digits; anything else raises \<open>ValueError\<close>.
\<close>

definition isspace :: "char \<Rightarrow> bool" where
  "isspace c = (c \<in> {CHR '' '', CHR 0x09, CHR 0x0A, CHR 0x0B, CHR 0x0C, CHR 0x0D})"

definition isdigit :: "char \<Rightarrow> bool" where
  "isdigit c = (48 \<le> (of_char c :: nat) \<and> (of_char c :: nat) \<le> 57)"

definition strip :: "string \<Rightarrow> string" where
  "strip s = rev (dropWhile isspace (rev (dropWhile isspace s)))"

definition int_of_digits :: "string \<Rightarrow> int" where
  "int_of_digits ds = foldl (\<lambda>a c. 10 * a + (int (of_char c) - 48)) 0 ds"

definition digits_only :: "string \<Rightarrow> error + int" where
  "digits_only ds =
     (if ds \<noteq> [] \<and> list_all isdigit ds then Inr (int_of_digits ds) else Inl ValueError)"

definition py_int :: "string \<Rightarrow> error + int" where
  "py_int s =
     (case strip s of
        [] \<Rightarrow> Inl ValueError
      | c # cs \<Rightarrow>
          (if c = CHR ''-'' then map_sum id uminus (digits_only cs)
           else if c = CHR ''+'' then digits_only cs
           else digits_only (c # cs)))"

text \<open>\<open>xs[i]\<close> for a non-negative index.\<close>

definition getitem :: "'a list \<Rightarrow> nat \<Rightarrow> error + 'a" where
  "getitem xs i = (if i < length xs then Inr (xs ! i) else Inl IndexError)"

text \<open>
  Files. \<open>open(name)\<close> followed by \<open>csv.reader\<close> gives the rows of the file, each a list
  of fields; \<open>None\<close> stands for a file that \<open>open\<close> cannot open (\<open>IOError\<close>). What the
  scripts print is a list of lines.
\<close>

type_synonym files = "string \<Rightarrow> string list list option"

definition dotless_i :: string where
  "dotless_i = [CHR 0xC4, CHR 0xB1]"

definition s_cedilla :: string where
  "s_cedilla = [CHR 0xC5, CHR 0x9F]"

definition stale_message :: "string \<Rightarrow> string" where
  "stale_message account =
     account @ '' adl'' @ dotless_i @ '' kullan'' @ dotless_i @ ''c'' @ dotless_i @
     '' son 1 haftad'' @ dotless_i @ ''r giri'' @ s_cedilla @ '' yapmad'' @ dotless_i @ ''...''"

definition whiteList_warning :: string where
  "whiteList_warning =
     ''uyar'' @ dotless_i @ '': whiteList.csv ad'' @ dotless_i @ ''nda dosya olmadan i'' @
     s_cedilla @ ''lem devam ediyor...''"

text \<open>
  \<open>whiteList\<close>: the bare \<open>except\<close> catches the failure of \<open>open\<close> and also an
  \<open>IndexError\<close> of \<open>row[0]\<close> on an empty row; the entries appended so far are kept.
\<close>

fun whiteList_rows :: "string list list \<Rightarrow> string list \<Rightarrow> (error + unit) \<times> string list" where
  "whiteList_rows [] wList = (Inr (), wList)"
| "whiteList_rows (row # rows) wList =
     (case getitem row 0 of
        Inl e \<Rightarrow> (Inl e, wList)
      | Inr account \<Rightarrow> whiteList_rows rows (wList @ [account]))"

definition whiteList :: "files \<Rightarrow> string list \<times> string list" where
  "whiteList fs =
     (case fs ''whiteList.csv'' of
        None \<Rightarrow> ([], [whiteList_warning])
      | Some rows \<Rightarrow>
          (case whiteList_rows rows [] of
             (Inl e, wList) \<Rightarrow> (wList, [whiteList_warning])
           | (Inr u, wList) \<Rightarrow> (wList, [])))"

text \<open>The dashed string built on lines 21 and 22 from a raw date field.\<close>

definition dashed :: "string \<Rightarrow> string" where
  "dashed field = slice field 0 4 @ ''-'' @ slice field 4 6 @ ''-'' @ slice field 6 8"

text \<open>Lines 24 to 26: the three component-wise differences.\<close>

definition date_diffs :: "string \<Rightarrow> string \<Rightarrow> error + (int \<times> int \<times> int)" where
  "date_diffs todayDate lastLoginDate =
     (case py_int (slice todayDate 0 4) of Inl e \<Rightarrow> Inl e | Inr ty \<Rightarrow>
     (case py_int (slice lastLoginDate 0 4) of Inl e \<Rightarrow> Inl e | Inr ly \<Rightarrow>
     (case py_int (slice todayDate 5 7) of Inl e \<Rightarrow> Inl e | Inr tm \<Rightarrow>
     (case py_int (slice lastLoginDate 5 7) of Inl e \<Rightarrow> Inl e | Inr lm \<Rightarrow>
     (case py_int (slice todayDate 8 10) of Inl e \<Rightarrow> Inl e | Inr td \<Rightarrow>
     (case py_int (slice lastLoginDate 8 10) of Inl e \<Rightarrow> Inl e | Inr ld \<Rightarrow>
        Inr (ty - ly, tm - lm, td - ld)))))))"

text \<open>Lines 24 to 28: the staleness check of one row; the result is what the row prints.\<close>

definition staleness_check ::
  "string list \<Rightarrow> string list \<Rightarrow> string \<Rightarrow> string \<Rightarrow> error + string list" where
  "staleness_check wList row todayDate lastLoginDate =
     (case date_diffs todayDate lastLoginDate of
        Inl e \<Rightarrow> Inl e
      | Inr (yearDiff, monthDiff, dayDiff) \<Rightarrow>
          (if yearDiff \<ge> 1 \<or> monthDiff \<ge> 1 \<or> dayDiff \<ge> 6
           then (case getitem row 2 of
                   Inl e \<Rightarrow> Inl e
                 | Inr account \<Rightarrow>
                     (if account \<notin> set wList then Inr [stale_message account] else Inr []))
           else Inr []))"

text \<open>Lines 21 to 28: the body of the loop over the rows.\<close>

definition lastWeekControl_row :: "string list \<Rightarrow> string list \<Rightarrow> error + string list" where
  "lastWeekControl_row wList row =
     (case getitem row 0 of Inl e \<Rightarrow> Inl e | Inr field0 \<Rightarrow>
     (case getitem row 10 of Inl e \<Rightarrow> Inl e | Inr field10 \<Rightarrow>
        (let todayDate = dashed field0;
             lastLoginDate = dashed field10
         in if todayDate \<noteq> ''date--''
            then staleness_check wList row todayDate lastLoginDate
            else Inr [])))"

fun lastWeekControl_rows ::
  "string list \<Rightarrow> string list list \<Rightarrow> string list \<Rightarrow> (error + unit) \<times> string list" where
  "lastWeekControl_rows wList [] out = (Inr (), out)"
| "lastWeekControl_rows wList (row # rows) out =
     (case lastWeekControl_row wList row of
        Inl e \<Rightarrow> (Inl e, out)
      | Inr printed \<Rightarrow> lastWeekControl_rows wList rows (out @ printed))"

definition lastWeekControl :: "files \<Rightarrow> string \<Rightarrow> (error + unit) \<times> string list" where
  "lastWeekControl fs file =
     (case whiteList fs of
        (wList, out) \<Rightarrow>
          (case fs file of
             None \<Rightarrow> (Inl IOError, out)
           | Some rows \<Rightarrow> lastWeekControl_rows wList rows out))"

section \<open>What a first match is\<close>

text \<open>
  The meaning of \<open>search\<close> for the pattern \<open>lit(.*?)<\<close>, stated on the text rather than
  by a scan: the result is \<open>None\<close> when no occurrence of \<open>lit\<close> has a \<open><\<close> behind it;
  it is \<open>Some g\<close> when \<open>g\<close> is the \<open><\<close>-free text between the leftmost such occurrence
  and the first \<open><\<close> behind it.
\<close>

definition first_match :: "string \<Rightarrow> string \<Rightarrow> string option \<Rightarrow> bool" where
  "first_match lit s r =
     (case r of
        None \<Rightarrow> (\<forall>pre rest. s = pre @ lit @ rest \<longrightarrow> CHR ''<'' \<notin> set rest)
      | Some g \<Rightarrow>
          (\<exists>pre post. s = pre @ lit @ g @ CHR ''<'' # post \<and> CHR ''<'' \<notin> set g \<and>
             (\<forall>pre' rest'. s = pre' @ lit @ rest' \<and> CHR ''<'' \<in> set rest'
                 \<longrightarrow> length pre \<le> length pre')))"

section \<open>Well-formed XML\<close>

text \<open>
  What ``valid XML'' means for the request: well-formedness of XML 1.0, read off the
  grammar of the recommendation for the documents a request can be: an optional
  declaration, white space, one root element with attributes, nested elements,
  character data and references, white space. The declaration, when there is one, is the
  one of the template (version 1.0, encoding UTF-8), and the characters are ASCII.
  Comments, processing instructions, CDATA sections and a document type declaration are
  outside this class and are not accepted.

  The check is an automaton with a stack of the open elements, run over the characters.
\<close>

definition xml_space :: "char \<Rightarrow> bool" where
  "xml_space c = (c \<in> {CHR '' '', CHR 0x09, CHR 0x0A, CHR 0x0D})"

definition xml_char :: "char \<Rightarrow> bool" where
  "xml_char c = (xml_space c \<or> (32 \<le> (of_char c :: nat) \<and> (of_char c :: nat) \<le> 127))"

definition name_start :: "char \<Rightarrow> bool" where
  "name_start c =
     ((65 \<le> (of_char c :: nat) \<and> (of_char c :: nat) \<le> 90) \<or>
      (97 \<le> (of_char c :: nat) \<and> (of_char c :: nat) \<le> 122) \<or>
      c = CHR ''_'' \<or> c = CHR '':'')"

definition name_char :: "char \<Rightarrow> bool" where
  "name_char c = (name_start c \<or> isdigit c \<or> c = CHR ''-'' \<or> c = CHR ''.'')"

text \<open>
  The text between \<open>&\<close> and \<open>;\<close> of a reference: one of the five predefined entities,
  or a decimal or hexadecimal character reference to a legal character.
\<close>

definition hex_value :: "char \<Rightarrow> nat option" where
  "hex_value c =
     (let n = (of_char c :: nat)
      in if 48 \<le> n \<and> n \<le> 57 then Some (n - 48)
         else if 65 \<le> n \<and> n \<le> 70 then Some (n - 55)
         else if 97 \<le> n \<and> n \<le> 102 then Some (n - 87)
         else None)"

fun number_in_base :: "nat \<Rightarrow> string \<Rightarrow> nat \<Rightarrow> nat option" where
  "number_in_base b [] acc = Some acc"
| "number_in_base b (c # cs) acc =
     (case hex_value c of
        None \<Rightarrow> None
      | Some d \<Rightarrow> (if d < b then number_in_base b cs (b * acc + d) else None))"

definition code_point_ok :: "nat \<Rightarrow> bool" where
  "code_point_ok n =
     (n = 9 \<or> n = 10 \<or> n = 13 \<or> (32 \<le> n \<and> n \<le> 55295) \<or>
      (57344 \<le> n \<and> n \<le> 65533) \<or> (65536 \<le> n \<and> n \<le> 1114111))"

definition char_ref_ok :: "nat \<Rightarrow> string \<Rightarrow> bool" where
  "char_ref_ok b ds =
     (ds \<noteq> [] \<and> (case number_in_base b ds 0 of None \<Rightarrow> False | Some n \<Rightarrow> code_point_ok n))"

definition ref_ok :: "string \<Rightarrow> bool" where
  "ref_ok r =
     (r \<in> {''lt'', ''gt'', ''amp'', ''apos'', ''quot''} \<or>
      (case r of
         [] \<Rightarrow> False
       | c # ds \<Rightarrow>
           c = CHR ''#'' \<and>
           (case ds of
              [] \<Rightarrow> False
            | x # hs \<Rightarrow> (if x = CHR ''x'' then char_ref_ok 16 hs else char_ref_ok 10 ds))))"

text \<open>
  The states. \<open>Content st k\<close>: in the content of the innermost element of the stack
  \<open>st\<close>, with \<open>k\<close> (at most 2) closing brackets just read, since \<open>]]>\<close> may not stand in
  character data. The states of a start tag carry the stack, the tag's name and the
  attribute names read so far, which must differ.
\<close>

datatype xml_state =
    Prolog
  | Epilog
  | Content "string list" nat
  | ContentRef "string list" string
  | Markup "string list"
  | StartName "string list" string
  | InTag "string list" string "string list"
  | AttrName "string list" string "string list" string
  | AttrEq "string list" string "string list" string
  | AttrQuote "string list" string "string list"
  | AttrValue "string list" string "string list" char
  | AttrRef "string list" string "string list" char string
  | AttrEnd "string list" string "string list"
  | EmptyEnd "string list"
  | EndName "string list" string
  | EndSpace "string list" string

text \<open>Leaving an element: back to the content of its parent, or behind the root.\<close>

definition after_element :: "string list \<Rightarrow> xml_state" where
  "after_element st = (if st = [] then Epilog else Content st 0)"

definition close_element :: "string list \<Rightarrow> string \<Rightarrow> xml_state option" where
  "close_element st name =
     (case st of
        [] \<Rightarrow> None
      | innermost # below \<Rightarrow> (if innermost = name then Some (after_element below) else None))"

fun step :: "xml_state \<Rightarrow> char \<Rightarrow> xml_state option" where
  "step Prolog c =
     (if xml_space c then Some Prolog
      else if c = CHR ''<'' then Some (Markup [])
      else None)"
| "step Epilog c = (if xml_space c then Some Epilog else None)"
| "step (Content st k) c =
     (if c = CHR ''<'' then Some (Markup st)
      else if c = CHR ''&'' then Some (ContentRef st [])
      else if c = CHR '']'' then Some (Content st (min 2 (k + 1)))
      else if c = CHR ''>'' then (if k < 2 then Some (Content st 0) else None)
      else if xml_char c then Some (Content st 0)
      else None)"
| "step (ContentRef st r) c =
     (if c = CHR '';'' then (if ref_ok r then Some (Content st 0) else None)
      else if name_char c \<or> c = CHR ''#'' then Some (ContentRef st (r @ [c]))
      else None)"
| "step (Markup st) c =
     (if c = CHR ''/'' then Some (EndName st [])
      else if name_start c then Some (StartName st [c])
      else None)"
| "step (StartName st name) c =
     (if name_char c then Some (StartName st (name @ [c]))
      else if xml_space c then Some (InTag st name [])
      else if c = CHR ''>'' then Some (Content (name # st) 0)
      else if c = CHR ''/'' then Some (EmptyEnd st)
      else None)"
| "step (InTag st name atts) c =
     (if xml_space c then Some (InTag st name atts)
      else if name_start c then Some (AttrName st name atts [c])
      else if c = CHR ''>'' then Some (Content (name # st) 0)
      else if c = CHR ''/'' then Some (EmptyEnd st)
      else None)"
| "step (AttrName st name atts a) c =
     (if name_char c then Some (AttrName st name atts (a @ [c]))
      else if xml_space c then Some (AttrEq st name atts a)
      else if c = CHR ''='' then (if a \<in> set atts then None else Some (AttrQuote st name (a # atts)))
      else None)"
| "step (AttrEq st name atts a) c =
     (if xml_space c then Some (AttrEq st name atts a)
      else if c = CHR ''='' then (if a \<in> set atts then None else Some (AttrQuote st name (a # atts)))
      else None)"
| "step (AttrQuote st name atts) c =
     (if xml_space c then Some (AttrQuote st name atts)
      else if c = CHR 0x22 \<or> c = CHR 0x27 then Some (AttrValue st name atts c)
      else None)"
| "step (AttrValue st name atts q) c =
     (if c = q then Some (AttrEnd st name atts)
      else if c = CHR ''<'' then None
      else if c = CHR ''&'' then Some (AttrRef st name atts q [])
      else if xml_char c then Some (AttrValue st name atts q)
      else None)"
| "step (AttrRef st name atts q r) c =
     (if c = CHR '';'' then (if ref_ok r then Some (AttrValue st name atts q) else None)
      else if name_char c \<or> c = CHR ''#'' then Some (AttrRef st name atts q (r @ [c]))
      else None)"
| "step (AttrEnd st name atts) c =
     (if xml_space c then Some (InTag st name atts)
      else if c = CHR ''>'' then Some (Content (name # st) 0)
      else if c = CHR ''/'' then Some (EmptyEnd st)
      else None)"
| "step (EmptyEnd st) c = (if c = CHR ''>'' then Some (after_element st) else None)"
| "step (EndName st name) c =
     (if name = [] then (if name_start c then Some (EndName st [c]) else None)
      else if name_char c then Some (EndName st (name @ [c]))
      else if xml_space c then Some (EndSpace st name)
      else if c = CHR ''>'' then close_element st name
      else None)"
| "step (EndSpace st name) c =
     (if xml_space c then Some (EndSpace st name)
      else if c = CHR ''>'' then close_element st name
      else None)"

fun run :: "xml_state \<Rightarrow> string \<Rightarrow> xml_state option" where
  "run s [] = Some s"
| "run s (c # cs) = (case step s c of None \<Rightarrow> None | Some s' \<Rightarrow> run s' cs)"

definition XML_DECL :: string where
  \<open>XML_DECL = ''<?xml version="1.0" encoding="UTF-8"?>''\<close>

definition wellformed :: "string \<Rightarrow> bool" where
  "wellformed doc =
     (run Prolog (if startswith doc XML_DECL then drop (length XML_DECL) doc else doc)
        = Some Epilog)"

text \<open>
  Character data (production \<open>CharData\<close>): legal characters other than \<open><\<close> and \<open>&\<close>,
  without the sequence \<open>]]>\<close>.
\<close>

definition chardata :: "string \<Rightarrow> bool" where
  "chardata v =
     (list_all (\<lambda>c. xml_char c \<and> c \<noteq> CHR ''<'' \<and> c \<noteq> CHR ''&'') v \<and> \<not> sublist '']]>'' v)"

text \<open>The lines of the template before the first field, behind the declaration.\<close>

definition rest_start_tag :: string where
  \<open>rest_start_tag =
     [NL] @ ''<rest xmlns="google:accounts:rest:protocol"'' @ [NL] @
     ''    xmlns:xsi="http://www.w3.org/2001/XMLSchema-instance">'' @ [NL]\<close>

definition rest_end_tag :: string where
  "rest_end_tag = ''</rest>'' @ [NL]"

text \<open>One line of the template: an element with its text, indented, on a line of its own.\<close>

definition field_line :: "string \<Rightarrow> string \<Rightarrow> string" where
  "field_line name v = ''  <'' @ name @ ''>'' @ v @ ''</'' @ name @ ''>'' @ [NL]"

definition xml_name :: "string \<Rightarrow> bool" where
  "xml_name n = (case n of [] \<Rightarrow> False | c # cs \<Rightarrow> name_start c \<and> list_all name_char cs)"

section \<open>Properties of reporting.py\<close>

subsection \<open>The administrator's domain\<close>

lemma rfind_from_absent: "c \<notin> set s \<Longrightarrow> rfind_from c s i acc = acc"
  by (induction s arbitrary: i acc) auto

lemma rfind_from_split:
  "c \<notin> set suf \<Longrightarrow> rfind_from c (pre @ c # suf) i acc = int (i + length pre)"
  by (induction pre arbitrary: i acc) (auto simp: rfind_from_absent)

lemma last_occurrence:
  "c \<in> set s \<Longrightarrow> \<exists>pre suf. s = pre @ c # suf \<and> c \<notin> set suf"
  using split_list_last by fastforce

lemma nat_int_succ: "nat (int n + 1) = Suc n"
  by arith

lemma GetAdminEmailDomain_split:
  "CHR ''@'' \<notin> set suf \<Longrightarrow>
     GetAdminEmailDomain (self\<lparr>admin_email := Some (pre @ CHR ''@'' # suf)\<rparr>) = Some suf"
  by (simp add: GetAdminEmailDomain_def rfind_def rfind_from_split nat_int_succ)

lemma GetAdminEmailDomain_absent:
  "CHR ''@'' \<notin> set email \<Longrightarrow>
     GetAdminEmailDomain (self\<lparr>admin_email := Some email\<rparr>) = None"
  by (simp add: GetAdminEmailDomain_def rfind_def rfind_from_absent)

text \<open>
  C9. For every e-mail string, \<open>GetAdminEmailDomain\<close> returns what follows the last
  \<open>@\<close> when the string holds one, and \<open>None\<close> when it holds none. A string that
  holds an \<open>@\<close> is \<open>pre @ CHR ''@'' # suf\<close> with no \<open>@\<close> in \<open>suf\<close>
  (\<open>last_occurrence\<close>), and \<open>suf\<close> is then what follows the last \<open>@\<close>.
\<close>

theorem GetAdminEmailDomain_last_at:
  "(CHR ''@'' \<notin> set suf \<longrightarrow>
      GetAdminEmailDomain (self\<lparr>admin_email := Some (pre @ CHR ''@'' # suf)\<rparr>) = Some suf)
   \<and> (CHR ''@'' \<notin> set email \<longrightarrow>
      GetAdminEmailDomain (self\<lparr>admin_email := Some email\<rparr>) = None)"
  by (simp add: GetAdminEmailDomain_split GetAdminEmailDomain_absent)

theorem GetAdminEmailDomain_last_at_witness:
  "CHR ''@'' \<notin> set ''b.com''
   \<and> GetAdminEmailDomain (ReportRunner_init\<lparr>admin_email := Some ''a@b.com''\<rparr>) = Some ''b.com''
   \<and> CHR ''@'' \<notin> set ''noat''
   \<and> GetAdminEmailDomain (ReportRunner_init\<lparr>admin_email := Some ''noat''\<rparr>) = None"
  using GetAdminEmailDomain_last_at
    [where suf = "''b.com''" and pre = "''a''" and email = "''noat''" and self = ReportRunner_init]
  by simp

subsection \<open>Transport failures\<close>

text \<open>
  C1. A transport failure on the reporting endpoint should give a \<open>ConnectionError\<close>
  that names the endpoint contacted. \<open>__PostUrl\<close> names the authentication endpoint in
  both handlers: when the post of \<open>GetReportData\<close> to the reporting URL is answered with
  status 500, the error's message ends in the authentication URL, which is a different
  URL.
\<close>

theorem GetReportData_ConnectionError_names_auth_url:
  "GetReportData \<lparr>urlopen = (\<lambda>url data. if url = REPORTING_URL then HTTPError 500
                                            else Response ''''),
                  urlencode = (\<lambda>query. '''')\<rparr> self ReportRequest_init
     = Inl (ConnectionError
              (''URL connection error:'' @ [NL] @ ''HTTP Response Code: 500'' @ [NL] @
               ''while attempting to connect to: '' @
               ''https://www.google.com/accounts/ClientLogin''))
   \<and> REPORTING_URL \<noteq> ''https://www.google.com/accounts/ClientLogin''"
  by (simp add: GetReportData_def PostUrl_def ConnectionError_init_def AUTH_URL_def
      REPORTING_URL_def fmt_i_def zfill_def digit_char_def)

subsection \<open>Login\<close>

text \<open>
  C2. A response body without a \<open>SID\<close> line should make \<open>Login\<close> fail with
  \<open>LoginError\<close>. The body \<open>LSID=xyz\<close> followed by a newline has no such line, and
  \<open>Login\<close> raises \<open>ValueError\<close>: the text after the last newline is an empty line,
  whose split has one piece, and the unpacking into \<open>(name, value)\<close> fails. The body of
  the specification's example, where the \<open>SID\<close> line comes first, gives the token.
\<close>

theorem Login_no_SID_raises_ValueError:
  "Login \<lparr>urlopen = (\<lambda>url data. Response (''LSID=xyz'' @ [NL])),
          urlencode = (\<lambda>query. '''')\<rparr> self = (Inl ValueError, self)
   \<and> Login \<lparr>urlopen = (\<lambda>url data. Response (''SID=abc123'' @ [NL] @ ''LSID=xyz'' @ [NL])),
            urlencode = (\<lambda>query. '''')\<rparr> self
       = (Inr (), self\<lparr>runner_token := Some ''abc123''\<rparr>)"
  by (simp add: Login_def PostUrl_def NL_def numeral_2_eq_2)

text \<open>
  C10. \<open>Login\<close> changes nothing but the token: when it returns, the runner is the old
  one with the token set to the value of the \<open>SID\<close> line found in the response, and
  when it raises (\<open>ConnectionError\<close>, \<open>LoginError\<close>, or an exception of the runtime) the
  runner is as it was before the call, token included.
\<close>

theorem Login_frame:
  "(case Login w self of
      (Inl e, self') \<Rightarrow> self' = self
    | (Inr u, self') \<Rightarrow>
        (\<exists>body v. PostUrl w AUTH_URL
                     (urlencode w [(''accountType'', Some ''HOSTED''),
                                   (''Email'', admin_email self),
                                   (''Passwd'', admin_password self)]) = Inr body \<and>
                  Login_lines (split NL body) = Inr (Some v) \<and>
                  self' = self\<lparr>runner_token := Some v\<rparr>) \<and>
        admin_email self' = admin_email self \<and>
        admin_password self' = admin_password self \<and>
        runner_domain self' = runner_domain self)"
  by (auto simp add: Login_def Let_def split: sum.splits option.splits)

subsection \<open>Error documents\<close>

lemma match_at_Some:
  "match_at lit s = Some g \<Longrightarrow> \<exists>post. s = lit @ g @ CHR ''<'' # post \<and> CHR ''<'' \<notin> set g"
proof -
  assume a: "match_at lit s = Some g"
  let ?r = "drop (length lit) s"
  from a have p: "take (length lit) s = lit" and m: "CHR ''<'' \<in> set ?r"
    and g: "g = takeWhile (\<lambda>c. c \<noteq> CHR ''<'') ?r"
    by (auto simp: match_at_def startswith_def split: if_splits)
  from m have "dropWhile (\<lambda>c. c \<noteq> CHR ''<'') ?r \<noteq> []"
    by (simp add: dropWhile_eq_Nil_conv)
  then obtain x post where d: "dropWhile (\<lambda>c. c \<noteq> CHR ''<'') ?r = x # post"
    by (cases "dropWhile (\<lambda>c. c \<noteq> CHR ''<'') ?r") auto
  then have "x = CHR ''<''"
    using hd_dropWhile [of "\<lambda>c. c \<noteq> CHR ''<''" ?r] by simp
  with d g have "?r = g @ CHR ''<'' # post"
    using takeWhile_dropWhile_id [of "\<lambda>c. c \<noteq> CHR ''<''" ?r] by simp
  moreover have "s = lit @ ?r"
    using p append_take_drop_id [of "length lit" s] by simp
  moreover have "CHR ''<'' \<notin> set g"
    using g by (auto dest: set_takeWhileD)
  ultimately show ?thesis by auto
qed

lemma match_at_None:
  "match_at lit s = None \<Longrightarrow> s = lit @ rest \<Longrightarrow> CHR ''<'' \<notin> set rest"
  by (auto simp: match_at_def startswith_def split: if_splits)

lemma re_search_first_match: "first_match lit s (re_search lit s)"
proof (induction s)
  case Nil
  have "match_at lit [] = None"
    by (simp add: match_at_def)
  then show ?case
    by (simp add: first_match_def)
next
  case (Cons c cs)
  show ?case
  proof (cases "match_at lit (c # cs)")
    case (Some g)
    then obtain post where "c # cs = [] @ lit @ g @ CHR ''<'' # post" "CHR ''<'' \<notin> set g"
      using match_at_Some by fastforce
    then have "\<exists>pre post. c # cs = pre @ lit @ g @ CHR ''<'' # post \<and> CHR ''<'' \<notin> set g \<and>
             (\<forall>pre' rest'. c # cs = pre' @ lit @ rest' \<and> CHR ''<'' \<in> set rest'
                 \<longrightarrow> length pre \<le> length pre')"
      by (intro exI [of _ "[]"] exI [of _ post]) simp
    with Some show ?thesis
      by (simp add: first_match_def)
  next
    case None
    note here = match_at_None [OF None]
    show ?thesis
    proof (cases "re_search lit cs")
      case N: None
      with Cons.IH have ih: "\<And>pre rest. cs = pre @ lit @ rest \<Longrightarrow> CHR ''<'' \<notin> set rest"
        by (simp add: first_match_def)
      have "CHR ''<'' \<notin> set rest" if "c # cs = pre @ lit @ rest" for pre rest
      proof (cases pre)
        case Nil
        with that here show ?thesis by simp
      next
        case (Cons p ps)
        with that have "cs = ps @ lit @ rest" by simp
        then show ?thesis by (rule ih)
      qed
      with None N show ?thesis
        by (simp add: first_match_def)
    next
      case S: (Some g)
      with Cons.IH obtain pre post where
        ih: "cs = pre @ lit @ g @ CHR ''<'' # post" "CHR ''<'' \<notin> set g"
        and least: "\<And>pre' rest'. cs = pre' @ lit @ rest' \<Longrightarrow> CHR ''<'' \<in> set rest'
                 \<Longrightarrow> length pre \<le> length pre'"
        by (auto simp: first_match_def)
      have "length (c # pre) \<le> length pre'"
        if "c # cs = pre' @ lit @ rest'" "CHR ''<'' \<in> set rest'" for pre' rest'
      proof (cases pre')
        case Nil
        with that here show ?thesis by auto
      next
        case (Cons p ps)
        with that have "cs = ps @ lit @ rest'" by simp
        from least [OF this that(2)] Cons show ?thesis by simp
      qed
      moreover from ih have "c # cs = (c # pre) @ lit @ g @ CHR ''<'' # post" by simp
      ultimately have "\<exists>pre post. c # cs = pre @ lit @ g @ CHR ''<'' # post \<and> CHR ''<'' \<notin> set g \<and>
             (\<forall>pre' rest'. c # cs = pre' @ lit @ rest' \<and> CHR ''<'' \<in> set rest'
                 \<longrightarrow> length pre \<le> length pre')"
        using ih(2) by blast
      with None S show ?thesis
        by (simp add: first_match_def)
    qed
  qed
qed

lemma FromXml_fields:
  "FromXml ReportError_init xml =
     \<lparr>status = re_search ''status>'' xml, reason = re_search ''reason>'' xml,
      extended_message = re_search ''extendedMessage>'' xml,
      result = re_search ''result>'' xml, err_type = re_search ''type>'' xml\<rparr>"
  by (simp add: FromXml_def ReportError_init_def Let_def split: option.splits)

text \<open>
  C3. When the reporting endpoint answers with a text that begins with \<open><?xml\<close>,
  \<open>GetReportData\<close> raises a \<open>ReportError\<close> whose five attributes are the first matches
  of the five tag patterns in the text, \<open>None\<close> where the pattern has no match; any other
  text is returned as it is.
\<close>

theorem GetReportData_response:
  assumes "urlopen w REPORTING_URL (ToXml report_request) = Response text"
  shows "GetReportData w self report_request =
           (if startswith text ''<?xml''
            then Inl (ReportErrorExc
                   \<lparr>status = re_search ''status>'' text,
                    reason = re_search ''reason>'' text,
                    extended_message = re_search ''extendedMessage>'' text,
                    result = re_search ''result>'' text,
                    err_type = re_search ''type>'' text\<rparr>)
            else Inr text)
         \<and> (\<forall>lit. first_match lit text (re_search lit text))"
  using assms
  by (simp add: GetReportData_def PostUrl_def FromXml_fields re_search_first_match)

theorem GetReportData_response_witness:
  \<open>GetReportData
     \<lparr>urlopen = (\<lambda>url data. Response
         (''<?xml version="1.0" encoding="UTF-8"?>'' @
          ''<status>500</status><reason>Quota</reason>'')),
      urlencode = (\<lambda>query. '''')\<rparr> ReportRunner_init ReportRequest_init
   = Inl (ReportErrorExc
            \<lparr>status = Some ''500'', reason = Some ''Quota'', extended_message = None,
             result = None, err_type = None\<rparr>)
   \<and> GetReportData
     \<lparr>urlopen = (\<lambda>url data. Response ''date,account_id''), urlencode = (\<lambda>query. '''')\<rparr>
       ReportRunner_init ReportRequest_init
   = Inr ''date,account_id''\<close>
proof -
  let ?doc = \<open>''<?xml version="1.0" encoding="UTF-8"?>'' @
          ''<status>500</status><reason>Quota</reason>''\<close>
  let ?w1 = "\<lparr>urlopen = (\<lambda>url data. Response ?doc), urlencode = (\<lambda>query. '''')\<rparr>"
  let ?w2 = "\<lparr>urlopen = (\<lambda>url data. Response ''date,account_id''),
              urlencode = (\<lambda>query. '''')\<rparr>"
  have h1: "urlopen ?w1 REPORTING_URL (ToXml ReportRequest_init) = Response ?doc"
    by simp
  have h2: "urlopen ?w2 REPORTING_URL (ToXml ReportRequest_init) = Response ''date,account_id''"
    by simp
  have s: "re_search ''status>'' ?doc = Some ''500''"
    by (simp add: match_at_def startswith_def)
  have r: "re_search ''reason>'' ?doc = Some ''Quota''"
    by (simp add: match_at_def startswith_def)
  have e: "re_search ''extendedMessage>'' ?doc = None"
    by (simp add: match_at_def startswith_def)
  have u: "re_search ''result>'' ?doc = None"
    by (simp add: match_at_def startswith_def)
  have t: "re_search ''type>'' ?doc = None"
    by (simp add: match_at_def startswith_def)
  have x: "startswith ?doc ''<?xml''" "\<not> startswith ''date,account_id'' ''<?xml''"
    by (simp_all add: startswith_def)
  from GetReportData_response [OF h1, of ReportRunner_init]
       GetReportData_response [OF h2, of ReportRunner_init] s r e u t x
  show ?thesis by simp
qed

subsection \<open>The latest report date\<close>

lemma days_div: "(t - k * 86400) div 86400 = t div 86400 - (k::int)"
proof -
  have "t - k * 86400 = t + (- k) * 86400" by simp
  then have "(t - k * 86400) div 86400 = (t + (- k) * 86400) div 86400" by simp
  also have "\<dots> = (- k) + t div 86400" by (rule div_mult_self1) simp
  finally show ?thesis by simp
qed

lemma days_mod: "(t - k * 86400) mod 86400 = t mod (86400::int)"
proof -
  have "t - k * 86400 = t + (- k) * 86400" by simp
  then have "(t - k * 86400) mod 86400 = (t + (- k) * 86400) mod 86400" by simp
  also have "\<dots> = t mod 86400" by (rule mod_mult_self1)
  finally show ?thesis .
qed

lemma gmtime_days_before:
  "gmtime (t - k * 86400) =
     (case civil_from_days (t div 86400 - k) of
        (y, m, d) \<Rightarrow> \<lparr>tm_year = y, tm_mon = m, tm_mday = d, tm_hour = (t mod 86400) div 3600\<rparr>)"
  by (simp only: gmtime_def days_div days_mod)

lemma gmtime_hour: "tm_hour (gmtime t) = (t mod 86400) div 3600"
  by (simp add: gmtime_def split: prod.splits)

text \<open>
  C6. With \<open>shifted = now - 8 hours\<close>, \<open>GetLatestReportDate\<close> returns the civil date
  two days before the day of \<open>shifted\<close> when the hour of \<open>shifted\<close> is below 12, and
  one day before it otherwise, as year, month and day padded to 4, 2 and 2 digits with
  dashes between. 1710097200 is 19:00 UTC on 2024-03-10 and gives \<open>2024-03-08\<close>;
  1710104400 is 21:00 UTC on that day and gives \<open>2024-03-09\<close>.
\<close>

theorem GetLatestReportDate_cutoff:
  "GetLatestReportDate now =
     (let shifted = now - 8 * 3600;
          days = (if tm_hour (gmtime shifted) < 12 then 2 else 1)
      in case civil_from_days (shifted div 86400 - days) of
           (y, m, d) \<Rightarrow> fmt_i 4 y @ ''-'' @ fmt_i 2 m @ ''-'' @ fmt_i 2 d)
   \<and> tm_hour (gmtime (now - 8 * 3600)) = ((now - 8 * 3600) mod 86400) div 3600
   \<and> gmtime 1710097200 = \<lparr>tm_year = 2024, tm_mon = 3, tm_mday = 10, tm_hour = 19\<rparr>
   \<and> GetLatestReportDate 1710097200 = ''2024-03-08''
   \<and> gmtime 1710104400 = \<lparr>tm_year = 2024, tm_mon = 3, tm_mday = 10, tm_hour = 21\<rparr>
   \<and> GetLatestReportDate 1710104400 = ''2024-03-09''"
proof (intro conjI)
  have two: "gmtime (now - 201600) =
     (case civil_from_days ((now - 28800) div 86400 - 2) of
        (y, m, d) \<Rightarrow> \<lparr>tm_year = y, tm_mon = m, tm_mday = d,
                     tm_hour = ((now - 28800) mod 86400) div 3600\<rparr>)"
    using gmtime_days_before [of "now - 28800" 2] by simp
  have one: "gmtime (now - 115200) =
     (case civil_from_days ((now - 28800) div 86400 - 1) of
        (y, m, d) \<Rightarrow> \<lparr>tm_year = y, tm_mon = m, tm_mday = d,
                     tm_hour = ((now - 28800) mod 86400) div 3600\<rparr>)"
    using gmtime_days_before [of "now - 28800" 1] by simp
  show "GetLatestReportDate now =
     (let shifted = now - 8 * 3600;
          days = (if tm_hour (gmtime shifted) < 12 then 2 else 1)
      in case civil_from_days (shifted div 86400 - days) of
           (y, m, d) \<Rightarrow> fmt_i 4 y @ ''-'' @ fmt_i 2 m @ ''-'' @ fmt_i 2 d)"
    by (simp add: GetLatestReportDate_def Let_def two one split: prod.splits)
  show "tm_hour (gmtime (now - 8 * 3600)) = ((now - 8 * 3600) mod 86400) div 3600"
    by (rule gmtime_hour)
  show "gmtime 1710097200 = \<lparr>tm_year = 2024, tm_mon = 3, tm_mday = 10, tm_hour = 19\<rparr>"
    by code_simp
  show "GetLatestReportDate 1710097200 = ''2024-03-08''"
    by code_simp
  show "gmtime 1710104400 = \<lparr>tm_year = 2024, tm_mon = 3, tm_mday = 10, tm_hour = 21\<rparr>"
    by code_simp
  show "GetLatestReportDate 1710104400 = ''2024-03-09''"
    by code_simp
qed

subsection \<open>The request document\<close>

lemma run_append:
  "run s (a @ b) = (case run s a of None \<Rightarrow> None | Some s' \<Rightarrow> run s' b)"
  by (induction a arbitrary: s) (auto split: option.splits)

lemma sublist_skip: "sublist x v \<Longrightarrow> sublist x (p @ v)"
proof -
  assume "sublist x v"
  then obtain ps ss where "v = ps @ x @ ss" by (auto simp: sublist_def)
  then have "p @ v = (p @ ps) @ x @ ss" by simp
  then show ?thesis unfolding sublist_def by blast
qed

lemma run_chardata_from:
  assumes "list_all (\<lambda>c. xml_char c \<and> c \<noteq> CHR ''<'' \<and> c \<noteq> CHR ''&'') v"
    and "\<not> sublist '']]>'' (replicate j (CHR '']'') @ v)"
    and "j \<le> 2"
  shows "\<exists>k. run (Content st j) v = Some (Content st k)"
  using assms
proof (induction v arbitrary: j)
  case Nil
  then show ?case by simp
next
  case (Cons c v)
  from Cons.prems(1) have c: "xml_char c" "c \<noteq> CHR ''<''" "c \<noteq> CHR ''&''"
    and v: "list_all (\<lambda>c. xml_char c \<and> c \<noteq> CHR ''<'' \<and> c \<noteq> CHR ''&'') v"
    by simp_all
  have tail: "\<not> sublist '']]>'' (replicate 0 (CHR '']'') @ v)"
  proof
    assume "sublist '']]>'' (replicate 0 (CHR '']'') @ v)"
    then have "sublist '']]>'' v" by simp
    then have "sublist '']]>'' ((replicate j (CHR '']'') @ [c]) @ v)" by (rule sublist_skip)
    with Cons.prems(2) show False by simp
  qed
  consider (bracket) "c = CHR '']''" | (greater) "c = CHR ''>''"
    | (other) "c \<noteq> CHR '']''" "c \<noteq> CHR ''>''" by blast
  then show ?case
  proof cases
    case bracket
    have "\<not> sublist '']]>'' (replicate (min 2 (j + 1)) (CHR '']'') @ v)"
    proof (cases "j < 2")
      case True
      then have "min 2 (j + 1) = Suc j" by simp
      moreover have "replicate (Suc j) (CHR '']'') @ v = replicate j (CHR '']'') @ CHR '']'' # v"
        by (simp add: replicate_app_Cons_same)
      ultimately show ?thesis using Cons.prems(2) bracket by simp
    next
      case False
      with Cons.prems(3) have j: "j = 2" by simp
      have "replicate j (CHR '']'') @ c # v = CHR '']'' # (replicate 2 (CHR '']'') @ v)"
        using j bracket by (simp add: numeral_2_eq_2)
      with Cons.prems(2) have "\<not> sublist '']]>'' (replicate 2 (CHR '']'') @ v)"
        by (simp add: sublist_Cons_right)
      with j show ?thesis by simp
    qed
    from Cons.IH [OF v this] obtain k where
      "run (Content st (min 2 (j + 1))) v = Some (Content st k)" by auto
    with bracket show ?thesis by simp
  next
    case greater
    have "j < 2"
    proof (rule ccontr)
      assume "\<not> j < 2"
      with Cons.prems(3) have "j = 2" by simp
      then have "replicate j (CHR '']'') @ c # v = '']]>'' @ v"
        using greater by (simp add: numeral_2_eq_2)
      then have "sublist '']]>'' (replicate j (CHR '']'') @ c # v)"
        by (simp only: sublist_append_rightI)
      with Cons.prems(2) show False by simp
    qed
    moreover from Cons.IH [OF v tail] obtain k where
      "run (Content st 0) v = Some (Content st k)" by auto
    ultimately show ?thesis using greater by simp
  next
    case other
    from Cons.IH [OF v tail] obtain k where
      "run (Content st 0) v = Some (Content st k)" by auto
    with other c show ?thesis by simp
  qed
qed

lemma run_chardata:
  "chardata v \<Longrightarrow> \<exists>k. run (Content st 0) v = Some (Content st k)"
  using run_chardata_from [of v 0 st] by (simp add: chardata_def)

lemma not_name_char_gt: "\<not> name_char (CHR ''>'')" "\<not> xml_space (CHR ''>'')"
  by (simp_all add: name_char_def name_start_def isdigit_def xml_space_def)

lemma run_start_name:
  "list_all name_char cs \<Longrightarrow>
     run (StartName st pre) (cs @ ''>'' @ rest) = run (Content ((pre @ cs) # st) 0) rest"
  by (induction cs arbitrary: pre) (simp_all add: not_name_char_gt)

lemma run_end_name:
  "list_all name_char cs \<Longrightarrow> pre \<noteq> [] \<Longrightarrow>
     run (EndName st pre) (cs @ ''>'' @ rest) =
       (case close_element st (pre @ cs) of None \<Rightarrow> None | Some s \<Rightarrow> run s rest)"
  by (induction cs arbitrary: pre) (simp_all add: not_name_char_gt)

lemma name_start_not_slash: "name_start c \<Longrightarrow> c \<noteq> CHR ''/''"
  by (auto simp: name_start_def)

lemma run_field_line:
  assumes "xml_name n" "chardata v" "st \<noteq> []"
  shows "run (Content st 0) (field_line n v) = Some (Content st 0)"
proof -
  from assms(1) obtain c cs where n: "n = c # cs" "name_start c" "list_all name_char cs"
    by (auto simp: xml_name_def split: list.splits)
  note slash = name_start_not_slash [OF n(2)]
  have start: "run (Content st 0) (''  <'' @ n @ ''>'' @ rest) = run (Content (n # st) 0) rest"
    for rest
    using n slash run_start_name [of cs st "[c]" rest]
    by (simp add: xml_char_def xml_space_def)
  from run_chardata [OF assms(2)] obtain k where
    body: "run (Content (n # st) 0) v = Some (Content (n # st) k)" by blast
  have "run (Content (n # st) k) (''</'' @ n @ ''>'' @ [NL]) = Some (Content st 0)"
    using n assms(3) run_end_name [of cs "[c]" "n # st" "[NL]"]
    by (simp add: close_element_def after_element_def xml_char_def xml_space_def NL_def)
  with body have "run (Content (n # st) 0) (v @ ''</'' @ n @ ''>'' @ [NL]) = Some (Content st 0)"
    by (simp add: run_append)
  with start [of "v @ ''</'' @ n @ ''>'' @ [NL]"] show ?thesis
    by (simp add: field_line_def)
qed

lemma run_rest_start_tag: "run Prolog rest_start_tag = Some (Content [''rest''] 0)"
  by code_simp

lemma run_rest_end_tag: "run (Content [''rest''] 0) rest_end_tag = Some Epilog"
  by code_simp

lemma ToXml_lines:
  "ToXml self =
     XML_DECL @ rest_start_tag @
     field_line ''type'' (py_str (type self)) @
     field_line ''token'' (py_str (token self)) @
     field_line ''domain'' (py_str (domain self)) @
     field_line ''date'' (py_str (date self)) @
     field_line ''reportType'' (py_str (report_type self)) @
     field_line ''reportName'' (py_str (report_name self)) @
     rest_end_tag"
  by (simp add: ToXml_def XML_DECL_def rest_start_tag_def field_line_def rest_end_tag_def)

lemma xml_names:
  "xml_name ''type''" "xml_name ''token''" "xml_name ''domain''" "xml_name ''date''"
  "xml_name ''reportType''" "xml_name ''reportName''"
  by (simp_all add: xml_name_def name_start_def name_char_def)

lemma ToXml_wellformed_chardata:
  assumes "chardata (py_str (type self))" "chardata (py_str (token self))"
    "chardata (py_str (domain self))" "chardata (py_str (date self))"
    "chardata (py_str (report_type self))" "chardata (py_str (report_name self))"
  shows "wellformed (ToXml self)"
proof -
  have "startswith (XML_DECL @ body) XML_DECL" for body
    by (simp add: startswith_def)
  then show ?thesis
    using assms
    by (simp add: wellformed_def ToXml_lines run_append run_rest_start_tag run_rest_end_tag
        run_field_line xml_names)
qed

lemma sublist_field_line:
  "sublist (CHR ''<'' # n @ CHR ''>'' # v @ ''</'' @ n @ ''>'') (field_line n v)"
proof -
  have "field_line n v = ''  '' @ (CHR ''<'' # n @ CHR ''>'' # v @ ''</'' @ n @ ''>'') @ [NL]"
    by (simp add: field_line_def)
  then show ?thesis by (simp only: sublist_appendI)
qed

lemma sublist_here: "sublist x e \<Longrightarrow> sublist x (e @ s)"
proof -
  assume "sublist x e"
  then obtain ps ss where "e = ps @ x @ ss" by (auto simp: sublist_def)
  then have "e @ s = ps @ x @ (ss @ s)" by simp
  then show ?thesis unfolding sublist_def by blast
qed

lemma ToXml_contains:
  "sublist (''<type>'' @ py_str (type self) @ ''</type>'') (ToXml self)"
  "sublist (''<token>'' @ py_str (token self) @ ''</token>'') (ToXml self)"
  "sublist (''<domain>'' @ py_str (domain self) @ ''</domain>'') (ToXml self)"
  "sublist (''<date>'' @ py_str (date self) @ ''</date>'') (ToXml self)"
  "sublist (''<reportType>'' @ py_str (report_type self) @ ''</reportType>'') (ToXml self)"
  "sublist (''<reportName>'' @ py_str (report_name self) @ ''</reportName>'') (ToXml self)"
proof -
  note here = sublist_here [OF sublist_field_line]
  note skip = sublist_skip
  have "sublist (CHR ''<'' # ''type'' @ CHR ''>'' # py_str (type self) @ ''</'' @ ''type'' @ ''>'')
          (ToXml self)"
    unfolding ToXml_lines by (intro skip [OF skip [OF here]])
  then show "sublist (''<type>'' @ py_str (type self) @ ''</type>'') (ToXml self)"
    by simp
  have "sublist (CHR ''<'' # ''token'' @ CHR ''>'' # py_str (token self) @ ''</'' @ ''token'' @ ''>'')
          (ToXml self)"
    unfolding ToXml_lines by (intro skip [OF skip [OF skip [OF here]]])
  then show "sublist (''<token>'' @ py_str (token self) @ ''</token>'') (ToXml self)"
    by simp
  have "sublist (CHR ''<'' # ''domain'' @ CHR ''>'' # py_str (domain self) @ ''</'' @ ''domain'' @ ''>'')
          (ToXml self)"
    unfolding ToXml_lines by (intro skip [OF skip [OF skip [OF skip [OF here]]]])
  then show "sublist (''<domain>'' @ py_str (domain self) @ ''</domain>'') (ToXml self)"
    by simp
  have "sublist (CHR ''<'' # ''date'' @ CHR ''>'' # py_str (date self) @ ''</'' @ ''date'' @ ''>'')
          (ToXml self)"
    unfolding ToXml_lines by (intro skip [OF skip [OF skip [OF skip [OF skip [OF here]]]]])
  then show "sublist (''<date>'' @ py_str (date self) @ ''</date>'') (ToXml self)"
    by simp
  have "sublist (CHR ''<'' # ''reportType'' @ CHR ''>'' # py_str (report_type self) @
                 ''</'' @ ''reportType'' @ ''>'') (ToXml self)"
    unfolding ToXml_lines
    by (intro skip [OF skip [OF skip [OF skip [OF skip [OF skip [OF here]]]]]])
  then show "sublist (''<reportType>'' @ py_str (report_type self) @ ''</reportType>'')
               (ToXml self)"
    by simp
  have "sublist (CHR ''<'' # ''reportName'' @ CHR ''>'' # py_str (report_name self) @
                 ''</'' @ ''reportName'' @ ''>'') (ToXml self)"
    unfolding ToXml_lines
    by (intro skip [OF skip [OF skip [OF skip [OF skip [OF skip [OF skip [OF here]]]]]]])
  then show "sublist (''<reportName>'' @ py_str (report_name self) @ ''</reportName>'')
               (ToXml self)"
    by simp
qed


text \<open>
  C7, as the specification states it: for every request with all six fields set, the
  output of \<open>ToXml\<close> is valid XML. \<open>ToXml\<close> copies the values into the template as
  they are; with the report name \<open>a<b\<close> the \<open><\<close> of the name opens markup inside the
  \<open>reportName\<close> element and the document is not well-formed.
\<close>

theorem ToXml_not_wellformed_counterexample:
  "\<not> wellformed (ToXml \<lparr>type = Some ''Report'', token = Some ''DQAAAHgA'',
                           domain = Some ''example.com'', date = Some ''2024-03-08'',
                           report_type = Some ''daily'', report_name = Some ''a<b''\<rparr>)"
  by code_simp

text \<open>
  C7, amended. Write \<open>py_str f\<close> for what the template shows of a field \<open>f\<close>: the string
  itself when the field is set, the four letters \<open>None\<close> when it is not. If the six
  fields show as character data (legal ASCII characters other than \<open><\<close> and \<open>&\<close>, and
  no \<open>]]>\<close>), the output of \<open>ToXml\<close> is well-formed XML. For every request the output
  holds each field, as shown, between the start tag and the end tag of its name; and
  requests with equal fields give equal outputs.
\<close>

theorem ToXml_document:
  "(chardata (py_str (type self)) \<and> chardata (py_str (token self)) \<and>
    chardata (py_str (domain self)) \<and> chardata (py_str (date self)) \<and>
    chardata (py_str (report_type self)) \<and> chardata (py_str (report_name self))
      \<longrightarrow> wellformed (ToXml self))
   \<and> sublist (''<type>'' @ py_str (type self) @ ''</type>'') (ToXml self)
   \<and> sublist (''<token>'' @ py_str (token self) @ ''</token>'') (ToXml self)
   \<and> sublist (''<domain>'' @ py_str (domain self) @ ''</domain>'') (ToXml self)
   \<and> sublist (''<date>'' @ py_str (date self) @ ''</date>'') (ToXml self)
   \<and> sublist (''<reportType>'' @ py_str (report_type self) @ ''</reportType>'') (ToXml self)
   \<and> sublist (''<reportName>'' @ py_str (report_name self) @ ''</reportName>'') (ToXml self)
   \<and> py_str (Some v) = v \<and> py_str None = ''None''
   \<and> (type other = type self \<and> token other = token self \<and> domain other = domain self \<and>
      date other = date self \<and> report_type other = report_type self \<and>
      report_name other = report_name self \<longrightarrow> ToXml other = ToXml self)"
proof (intro conjI impI)
  assume "chardata (py_str (type self)) \<and> chardata (py_str (token self)) \<and>
    chardata (py_str (domain self)) \<and> chardata (py_str (date self)) \<and>
    chardata (py_str (report_type self)) \<and> chardata (py_str (report_name self))"
  then show "wellformed (ToXml self)"
    by (simp add: ToXml_wellformed_chardata)
next
  show "sublist (''<type>'' @ py_str (type self) @ ''</type>'') (ToXml self)"
    by (rule ToXml_contains)
  show "sublist (''<token>'' @ py_str (token self) @ ''</token>'') (ToXml self)"
    by (rule ToXml_contains)
  show "sublist (''<domain>'' @ py_str (domain self) @ ''</domain>'') (ToXml self)"
    by (rule ToXml_contains)
  show "sublist (''<date>'' @ py_str (date self) @ ''</date>'') (ToXml self)"
    by (rule ToXml_contains)
  show "sublist (''<reportType>'' @ py_str (report_type self) @ ''</reportType>'') (ToXml self)"
    by (rule ToXml_contains)
  show "sublist (''<reportName>'' @ py_str (report_name self) @ ''</reportName>'') (ToXml self)"
    by (rule ToXml_contains)
  show "py_str (Some v) = v" and "py_str None = ''None''"
    by (simp_all add: py_str_def)
next
  assume "type other = type self \<and> token other = token self \<and> domain other = domain self \<and>
      date other = date self \<and> report_type other = report_type self \<and>
      report_name other = report_name self"
  then show "ToXml other = ToXml self"
    by (simp add: ToXml_def)
qed

theorem ToXml_document_witness:
  "chardata ''Report'' \<and> chardata ''DQAAAHgA'' \<and> chardata ''example.com'' \<and>
   chardata ''2024-03-08'' \<and> chardata ''daily'' \<and> chardata ''accounts''
   \<and> wellformed (ToXml \<lparr>type = Some ''Report'', token = Some ''DQAAAHgA'',
                          domain = Some ''example.com'', date = Some ''2024-03-08'',
                          report_type = Some ''daily'', report_name = Some ''accounts''\<rparr>)
   \<and> chardata ''None''
   \<and> wellformed (ToXml ReportRequest_init)
   \<and> sublist (''<token>'' @ ''None'' @ ''</token>'') (ToXml ReportRequest_init)"
proof -
  let ?r = "\<lparr>type = Some ''Report'', token = Some ''DQAAAHgA'',
             domain = Some ''example.com'', date = Some ''2024-03-08'',
             report_type = Some ''daily'', report_name = Some ''accounts''\<rparr>"
  have c: "chardata ''Report''" "chardata ''DQAAAHgA''" "chardata ''example.com''"
    "chardata ''2024-03-08''" "chardata ''daily''" "chardata ''accounts''" "chardata ''None''"
    by code_simp+
  have w: "wellformed (ToXml ?r)"
    by (rule ToXml_document [where self = ?r, THEN conjunct1, rule_format])
       (simp add: py_str_def c)
  have n: "wellformed (ToXml ReportRequest_init)"
    by (rule ToXml_document [where self = ReportRequest_init, THEN conjunct1, rule_format])
       (simp add: py_str_def ReportRequest_init_def c)
  have t: "py_str (token ReportRequest_init) = ''None''"
    by (simp add: py_str_def ReportRequest_init_def)
  have s: "sublist (''<token>'' @ ''None'' @ ''</token>'') (ToXml ReportRequest_init)"
    using ToXml_document [where self = ReportRequest_init,
                          THEN conjunct2, THEN conjunct2, THEN conjunct1]
    by (simp only: t)
  from c w n s show ?thesis by (intro conjI)
qed

section \<open>Properties of data.py\<close>

subsection \<open>The sentinel of the header row\<close>

lemma dashed_short: "length field \<le> 4 \<Longrightarrow> dashed field = field @ ''--''"
  by (simp add: dashed_def slice_def)

lemma dashed_sentinel: "(dashed field = ''date--'') = (field = ''date'')"
proof
  assume a: "dashed field = ''date--''"
  then have "length (dashed field) = 6" by simp
  then have "length field \<le> 4"
    by (simp add: dashed_def slice_def min_def split: if_splits)
  then have "dashed field = field @ ''--''" by (rule dashed_short)
  with a show "field = ''date''" by simp
next
  assume "field = ''date''"
  then show "dashed field = ''date--''" by (simp add: dashed_def slice_def)
qed

text \<open>
  C5. The scan skips the staleness check of a row exactly when the dashed string built
  from field 0 equals \<open>date--\<close>, and that is the case exactly when field 0 is the
  four-character string \<open>date\<close>: a row with fields 0 and 10 prints nothing when field 0
  is \<open>date\<close>, and is handed to the staleness check otherwise.
\<close>

theorem lastWeekControl_row_sentinel:
  "(dashed field0 = ''date--'') = (field0 = ''date'')
   \<and> (getitem row 0 = Inr field0 \<and> getitem row 10 = Inr field10 \<longrightarrow>
        lastWeekControl_row wList row =
          (if field0 = ''date'' then Inr []
           else staleness_check wList row (dashed field0) (dashed field10)))"
  by (simp add: dashed_sentinel lastWeekControl_row_def)

theorem lastWeekControl_row_sentinel_witness:
  "getitem [''date'', ''account_id'', ''account_name'', ''status'', ''quota_in_mb'',
            ''usage_in_bytes'', ''primary_account_id'', ''primary_account_name'',
            ''creation_date'', ''last_login_date'', ''last_web_mail_date''] 0 = Inr ''date''
   \<and> getitem [''date'', ''account_id'', ''account_name'', ''status'', ''quota_in_mb'',
            ''usage_in_bytes'', ''primary_account_id'', ''primary_account_name'',
            ''creation_date'', ''last_login_date'', ''last_web_mail_date''] 10
        = Inr ''last_web_mail_date''
   \<and> lastWeekControl_row [''bob'']
           [''date'', ''account_id'', ''account_name'', ''status'', ''quota_in_mb'',
            ''usage_in_bytes'', ''primary_account_id'', ''primary_account_name'',
            ''creation_date'', ''last_login_date'', ''last_web_mail_date''] = Inr []"
proof -
  let ?row = "[''date'', ''account_id'', ''account_name'', ''status'', ''quota_in_mb'',
            ''usage_in_bytes'', ''primary_account_id'', ''primary_account_name'',
            ''creation_date'', ''last_login_date'', ''last_web_mail_date'']"
  have g: "getitem ?row 0 = Inr ''date''" "getitem ?row 10 = Inr ''last_web_mail_date''"
    by (simp_all add: getitem_def)
  with lastWeekControl_row_sentinel
    [where row = ?row and ?field0.0 = "''date''" and ?field10.0 = "''last_web_mail_date''"
       and wList = "[''bob'']"]
  show ?thesis by simp
qed

subsection \<open>A missing allow-list\<close>

text \<open>
  C8. When \<open>whiteList.csv\<close> cannot be opened, \<open>whiteList\<close> returns the empty list and
  prints its warning; no exception leaves it. \<open>lastWeekControl\<close> then scans the report
  with the empty allow-list: the staleness check of a row does not depend on an
  allow-list any more, every row whose differences pass the threshold is reported.
\<close>

theorem whiteList_missing_file:
  assumes "fs ''whiteList.csv'' = None"
  shows "whiteList fs = ([], [whiteList_warning])
         \<and> lastWeekControl fs file =
             (case fs file of
                None \<Rightarrow> (Inl IOError, [whiteList_warning])
              | Some rows \<Rightarrow> lastWeekControl_rows [] rows [whiteList_warning])
         \<and> staleness_check [] row todayDate lastLoginDate =
             (case date_diffs todayDate lastLoginDate of
                Inl e \<Rightarrow> Inl e
              | Inr (yearDiff, monthDiff, dayDiff) \<Rightarrow>
                  (if yearDiff \<ge> 1 \<or> monthDiff \<ge> 1 \<or> dayDiff \<ge> 6
                   then (case getitem row 2 of
                           Inl e \<Rightarrow> Inl e
                         | Inr account \<Rightarrow> Inr [stale_message account])
                   else Inr []))"
  using assms
  by (simp add: whiteList_def lastWeekControl_def staleness_check_def
      split: sum.splits prod.splits)


theorem whiteList_missing_file_witness:
  "(\<lambda>name. if name = ''data.csv''
            then Some [[''20240310'', ''1'', ''alice'', ''a'', ''b'', ''c'', ''d'', ''e'',
                        ''f'', ''g'', ''20240301''],
                       [''20240310'', ''2'', ''bob'', ''a'', ''b'', ''c'', ''d'', ''e'',
                        ''f'', ''g'', ''20240101'']]
            else None) ''whiteList.csv'' = None
   \<and> lastWeekControl
         (\<lambda>name. if name = ''data.csv''
                 then Some [[''20240310'', ''1'', ''alice'', ''a'', ''b'', ''c'', ''d'', ''e'',
                             ''f'', ''g'', ''20240301''],
                            [''20240310'', ''2'', ''bob'', ''a'', ''b'', ''c'', ''d'', ''e'',
                             ''f'', ''g'', ''20240101'']]
                 else None) ''data.csv''
       = (Inr (), [whiteList_warning, stale_message ''alice'', stale_message ''bob''])"
proof -
  let ?alice = "[''20240310'', ''1'', ''alice'', ''a'', ''b'', ''c'', ''d'', ''e'', ''f'', ''g'',
            ''20240301'']"
  let ?bob = "[''20240310'', ''2'', ''bob'', ''a'', ''b'', ''c'', ''d'', ''e'', ''f'', ''g'',
          ''20240101'']"
  let ?fs = "\<lambda>name. if name = ''data.csv'' then Some [?alice, ?bob] else None"
  have h: "?fs ''whiteList.csv'' = None"
    by simp
  have a: "lastWeekControl_row [] ?alice = Inr [stale_message ''alice'']"
    by code_simp
  have b: "lastWeekControl_row [] ?bob = Inr [stale_message ''bob'']"
    by code_simp
  from whiteList_missing_file [of ?fs "''data.csv''"] a b h show ?thesis
    by simp
qed
subsection \<open>The staleness check\<close>

lemma strip_keeps_last:
  assumes "s \<noteq> []" "\<not> isspace (last s)"
  shows "strip s \<noteq> [] \<and> last (strip s) = last s"
proof -
  let ?t = "dropWhile isspace s"
  from assms have "last s \<in> set s" "\<not> isspace (last s)" by simp_all
  then have t: "?t \<noteq> []"
    by (auto simp: dropWhile_eq_Nil_conv)
  have "s = takeWhile isspace s @ ?t" by simp
  with t have l: "last ?t = last s"
    by (metis last_appendR)
  with t assms have "\<not> isspace (hd (rev ?t))"
    by (simp add: hd_rev)
  with t have "dropWhile isspace (rev ?t) = rev ?t"
    by (cases "rev ?t") auto
  then have "strip s = ?t" by (simp add: strip_def)
  with t l show ?thesis by simp
qed

lemma digits_only_trailing_minus:
  "ds = [] \<or> last ds = CHR ''-'' \<Longrightarrow> digits_only ds = Inl ValueError"
proof (cases "ds = []")
  case True
  then show ?thesis by (simp add: digits_only_def)
next
  case False
  assume "ds = [] \<or> last ds = CHR ''-''"
  with False have "CHR ''-'' \<in> set ds"
    using last_in_set by fastforce
  moreover have "\<not> isdigit (CHR ''-'')" by (simp add: isdigit_def)
  ultimately have "\<not> list_all isdigit ds"
    by (auto simp: list_all_iff)
  then show ?thesis by (simp add: digits_only_def)
qed

lemma py_int_trailing_minus:
  assumes "s \<noteq> []" "last s = CHR ''-''"
  shows "py_int s = Inl ValueError"
proof -
  have "\<not> isspace (last s)" using assms(2) by (simp add: isspace_def)
  with assms strip_keeps_last [of s]
  have t: "strip s \<noteq> []" "last (strip s) = CHR ''-''" by simp_all
  then obtain c cs where c: "strip s = c # cs" by (cases "strip s") auto
  with t have "cs = [] \<or> last cs = CHR ''-''" by (cases cs) auto
  then have "digits_only cs = Inl ValueError" by (rule digits_only_trailing_minus)
  moreover from t c have "digits_only (c # cs) = Inl ValueError"
    by (intro digits_only_trailing_minus) simp
  ultimately show ?thesis using c by (simp add: py_int_def)
qed

lemma short_field_year:
  assumes "length field < 4"
  shows "py_int (slice (dashed field) 0 4) = Inl ValueError"
proof -
  from assms have "slice (dashed field) 0 4 = field @ take (4 - length field) ''--''"
    by (simp add: dashed_def slice_def)
  moreover from assms have "take (4 - length field) ''--'' = ''-'' \<or>
      take (4 - length field) ''--'' = ''--''"
    by (cases "4 - length field") (auto simp: take_Cons')
  ultimately have "slice (dashed field) 0 4 \<noteq> [] \<and> last (slice (dashed field) 0 4) = CHR ''-''"
    by auto
  then show ?thesis by (simp add: py_int_trailing_minus)
qed

lemma short_field_month:
  assumes "4 \<le> length field" "length field < 6"
  shows "py_int (slice (dashed field) 5 7) = Inl ValueError"
proof -
  from assms have "slice (dashed field) 5 7 = drop 4 field @ ''-''"
    by (simp add: dashed_def slice_def)
  then have "slice (dashed field) 5 7 \<noteq> [] \<and> last (slice (dashed field) 5 7) = CHR ''-''"
    by simp
  then show ?thesis by (simp add: py_int_trailing_minus)
qed

lemma long_field_slices:
  assumes "6 \<le> length field"
  shows "slice (dashed field) 0 4 = slice field 0 4"
    and "slice (dashed field) 5 7 = slice field 4 6"
    and "slice (dashed field) 8 10 = slice field 6 8"
  using assms by (simp_all add: dashed_def slice_def)

lemma parsed_field_slices:
  assumes "py_int (slice (dashed field) 0 4) = Inr y"
    and "py_int (slice (dashed field) 5 7) = Inr m"
  shows "slice (dashed field) 0 4 = slice field 0 4"
    and "slice (dashed field) 5 7 = slice field 4 6"
    and "slice (dashed field) 8 10 = slice field 6 8"
proof -
  have "6 \<le> length field"
  proof (rule ccontr)
    assume "\<not> 6 \<le> length field"
    then consider "length field < 4" | "4 \<le> length field" "length field < 6" by linarith
    then show False
    proof cases
      case 1
      with assms(1) short_field_year show False by fastforce
    next
      case 2
      with assms(2) short_field_month show False by fastforce
    qed
  qed
  then show "slice (dashed field) 0 4 = slice field 0 4"
    and "slice (dashed field) 5 7 = slice field 4 6"
    and "slice (dashed field) 8 10 = slice field 6 8"
    by (rule long_field_slices)+
qed

lemma date_diffs_Inr:
  assumes "date_diffs todayDate lastLoginDate = Inr diffs"
  obtains ty ly tm lm td ld where
    "py_int (slice todayDate 0 4) = Inr ty" "py_int (slice lastLoginDate 0 4) = Inr ly"
    "py_int (slice todayDate 5 7) = Inr tm" "py_int (slice lastLoginDate 5 7) = Inr lm"
    "py_int (slice todayDate 8 10) = Inr td" "py_int (slice lastLoginDate 8 10) = Inr ld"
    "diffs = (ty - ly, tm - lm, td - ld)"
  using assms by (auto simp: date_diffs_def split: sum.splits)

text \<open>
  C4. Take a row whose staleness check runs and ends without an exception. Then the year,
  month and day digits of field 0 (the report date) and of field 10 (the last login) are
  integers, they are the numbers the check compares, and the row prints the notice for
  the account in field 2 if and only if the year difference or the month difference is at
  least 1 or the day difference is at least 6, and the account is not in the allow-list.
\<close>

theorem lastWeekControl_row_flags:
  assumes "getitem row 0 = Inr field0" and "getitem row 10 = Inr field10"
    and "dashed field0 \<noteq> ''date--''"
    and "lastWeekControl_row wList row = Inr printed"
  shows "\<exists>ty tm td ly lm ld account.
           py_int (slice field0 0 4) = Inr ty \<and> py_int (slice field0 4 6) = Inr tm \<and>
           py_int (slice field0 6 8) = Inr td \<and>
           py_int (slice field10 0 4) = Inr ly \<and> py_int (slice field10 4 6) = Inr lm \<and>
           py_int (slice field10 6 8) = Inr ld \<and>
           getitem row 2 = Inr account \<and>
           printed = (if (ty - ly \<ge> 1 \<or> tm - lm \<ge> 1 \<or> td - ld \<ge> 6) \<and> account \<notin> set wList
                      then [stale_message account] else [])"
proof -
  from assms have sc: "staleness_check wList row (dashed field0) (dashed field10) = Inr printed"
    by (simp add: lastWeekControl_row_def)
  then obtain diffs where dd: "date_diffs (dashed field0) (dashed field10) = Inr diffs"
    by (auto simp: staleness_check_def split: sum.splits)
  then obtain ty ly tm lm td ld where p:
    "py_int (slice (dashed field0) 0 4) = Inr ty" "py_int (slice (dashed field10) 0 4) = Inr ly"
    "py_int (slice (dashed field0) 5 7) = Inr tm" "py_int (slice (dashed field10) 5 7) = Inr lm"
    "py_int (slice (dashed field0) 8 10) = Inr td" "py_int (slice (dashed field10) 8 10) = Inr ld"
    and diffs: "diffs = (ty - ly, tm - lm, td - ld)"
    by (rule date_diffs_Inr)
  note s0 = parsed_field_slices [OF p(1) p(3)]
  note s10 = parsed_field_slices [OF p(2) p(4)]
  from assms(2) have "10 < length row" by (simp add: getitem_def split: if_splits)
  then obtain account where acc: "getitem row 2 = Inr account" by (simp add: getitem_def)
  from sc dd diffs acc
  have "printed = (if (ty - ly \<ge> 1 \<or> tm - lm \<ge> 1 \<or> td - ld \<ge> 6) \<and> account \<notin> set wList
                      then [stale_message account] else [])"
    by (auto simp: staleness_check_def split: if_splits)
  with p s0 s10 acc show ?thesis by auto
qed


theorem lastWeekControl_row_flags_witness:
  "getitem [''20240310'', ''1'', ''alice'', ''a'', ''b'', ''c'', ''d'', ''e'', ''f'', ''g'',
            ''20240301''] 0 = Inr ''20240310''
   \<and> getitem [''20240310'', ''1'', ''alice'', ''a'', ''b'', ''c'', ''d'', ''e'', ''f'', ''g'',
            ''20240301''] 10 = Inr ''20240301''
   \<and> dashed ''20240310'' \<noteq> ''date--''
   \<and> lastWeekControl_row [''bob'']
         [''20240310'', ''1'', ''alice'', ''a'', ''b'', ''c'', ''d'', ''e'', ''f'', ''g'',
          ''20240301''] = Inr [stale_message ''alice'']
   \<and> lastWeekControl_row [''bob'']
         [''20240310'', ''2'', ''bob'', ''a'', ''b'', ''c'', ''d'', ''e'', ''f'', ''g'',
          ''20240101''] = Inr []
   \<and> lastWeekControl
         (\<lambda>name. if name = ''whiteList.csv'' then Some [[''bob'']]
                 else if name = ''data.csv''
                 then Some [[''20240310'', ''1'', ''alice'', ''a'', ''b'', ''c'', ''d'', ''e'',
                             ''f'', ''g'', ''20240301''],
                            [''20240310'', ''2'', ''bob'', ''a'', ''b'', ''c'', ''d'', ''e'',
                             ''f'', ''g'', ''20240101'']]
                 else None) ''data.csv''
       = (Inr (), [stale_message ''alice''])"
proof -
  let ?alice = "[''20240310'', ''1'', ''alice'', ''a'', ''b'', ''c'', ''d'', ''e'', ''f'', ''g'',
            ''20240301'']"
  let ?bob = "[''20240310'', ''2'', ''bob'', ''a'', ''b'', ''c'', ''d'', ''e'', ''f'', ''g'',
          ''20240101'']"
  have a: "getitem ?alice 0 = Inr ''20240310''" and b: "getitem ?alice 10 = Inr ''20240301''"
    by (simp_all add: getitem_def)
  have c: "dashed ''20240310'' \<noteq> ''date--''"
    by (simp add: dashed_sentinel)
  have d: "lastWeekControl_row [''bob''] ?alice = Inr [stale_message ''alice'']"
    by code_simp
  have e: "lastWeekControl_row [''bob''] ?bob = Inr []"
    by code_simp
  have f: "whiteList_rows [[''bob'']] [] = (Inr (), [''bob''])"
    by (simp add: getitem_def)
  from d e f have g: "lastWeekControl
         (\<lambda>name. if name = ''whiteList.csv'' then Some [[''bob'']]
                 else if name = ''data.csv'' then Some [?alice, ?bob] else None) ''data.csv''
       = (Inr (), [stale_message ''alice''])"
    by (simp add: lastWeekControl_def whiteList_def)
  from lastWeekControl_row_flags [OF a b c d] a b c d e g show ?thesis
    by simp
qed
end
